theory Spec2Isabelle
  imports Complex_Main
begin

section \<open>Python numbers\<close>

text \<open>
  The script \<^verbatim>\<open>disaster_model.py\<close> computes with Python \<^verbatim>\<open>int\<close> (unbounded, modelled as
  \<^typ>\<open>int\<close>) and Python \<^verbatim>\<open>float\<close> (IEEE 754 binary64). A finite binary64 value is a
  rational number, so a float is modelled as the \<^typ>\<open>rat\<close> it denotes, and every float
  operation is the exact operation followed by rounding to the nearest binary64 value,
  ties to the even significand. All magnitudes of this program stay far below
  \<open>2 ^ 1024\<close>, so the overflow to infinity is not modelled.
\<close>

function bit_length :: "int \<Rightarrow> int" where
  \<comment> \<open>Python's \<^verbatim>\<open>int.bit_length\<close> on a positive integer\<close>
  "bit_length n = (if n \<le> 0 then 0 else 1 + bit_length (n div 2))"
  by pat_completeness auto
termination
  by (relation "measure nat") auto

declare bit_length.simps [simp del]

definition pow2 :: "int \<Rightarrow> rat" where
  "pow2 e = (if 0 \<le> e then 2 ^ nat e else 1 / 2 ^ nat (- e))"

definition binary_exponent :: "rat \<Rightarrow> int" where
  \<comment> \<open>for \<open>0 < a\<close>: the \<open>e\<close> with \<open>2 ^ e \<le> a < 2 ^ (e + 1)\<close>\<close>
  "binary_exponent a =
     (let (p, q) = quotient_of a;
          e0 = bit_length p - bit_length q
      in if pow2 e0 \<le> a then e0 else e0 - 1)"

definition round_half_even :: "rat \<Rightarrow> int" where
  "round_half_even x =
     (let f = \<lfloor>x\<rfloor>; d = x - of_int f
      in if d < 1 / 2 then f
         else if 1 / 2 < d then f + 1
         else if even f then f else f + 1)"

definition to_double :: "rat \<Rightarrow> rat" where
  \<comment> \<open>53 significant bits for normal numbers, the fixed quantum \<open>2 ^ - 1074\<close> below \<open>2 ^ - 1022\<close>\<close>
  "to_double x =
     (if x = 0 then 0
      else let e = max (binary_exponent \<bar>x\<bar>) (- 1022);
               quantum = pow2 (e - 52)
           in of_int (round_half_even (x / quantum)) * quantum)"

definition fmul :: "rat \<Rightarrow> rat \<Rightarrow> rat" where
  "fmul a b = to_double (a * b)"

definition fadd :: "rat \<Rightarrow> rat \<Rightarrow> rat" where
  "fadd a b = to_double (a + b)"

definition float_of_int :: "int \<Rightarrow> rat" where
  \<comment> \<open>the conversion Python applies to the \<^verbatim>\<open>int\<close> operand of a mixed \<^verbatim>\<open>int * float\<close>\<close>
  "float_of_int i = to_double (of_int i)"

datatype pyval = PyInt int | PyFloat rat

section \<open>The form and the engineered features\<close>

text \<open>
  The widgets of the form (lines 39 to 51). Sliders and number inputs whose bounds, default
  and step are integers return an \<^verbatim>\<open>int\<close>; those with float bounds return a \<^verbatim>\<open>float\<close>.
\<close>

record form =
  disaster_score :: int
  pop_density :: int
  latitude :: rat
  urban_level :: rat
  houses_affected :: int
  deaths :: int
  longitude :: rat
  submitted :: bool

definition in_ranges :: "form \<Rightarrow> bool" where
  "in_ranges f \<longleftrightarrow>
     0 \<le> disaster_score f \<and> disaster_score f \<le> 10 \<and>
     0 \<le> pop_density f \<and> pop_density f \<le> 20000 \<and>
     5 \<le> latitude f \<and> latitude f \<le> 40 \<and>
     0 \<le> urban_level f \<and> urban_level f \<le> 1 \<and>
     0 \<le> houses_affected f \<and> houses_affected f \<le> 10000 \<and>
     0 \<le> deaths f \<and> deaths f \<le> 1000 \<and>
     65 \<le> longitude f \<and> longitude f \<le> 100"

definition risk_index :: "form \<Rightarrow> rat" where
  \<comment> \<open>line 58; Python's \<^verbatim>\<open>+\<close> associates to the left\<close>
  "risk_index f =
     fadd (fadd (fmul (float_of_int (disaster_score f)) (to_double (5 / 10)))
                (fmul (float_of_int (pop_density f)) (to_double (3 / 10))))
          (fmul (urban_level f) (to_double (2 / 10)))"

definition damage_scale :: "form \<Rightarrow> int" where
  \<comment> \<open>line 59\<close>
  "damage_scale f = houses_affected f + (deaths f * 10)"

definition input_features :: "form \<Rightarrow> pyval list list" where
  \<comment> \<open>lines 61 to 64\<close>
  "input_features f =
     [[PyInt (disaster_score f), PyInt (pop_density f), PyFloat (urban_level f),
       PyInt (houses_affected f), PyInt (deaths f), PyFloat (risk_index f),
       PyInt (damage_scale f)]]"

section \<open>Strings\<close>

text \<open>
  \<^verbatim>\<open>str\<close> of a Python \<^verbatim>\<open>int\<close>, as an f-string field produces it: decimal digits, with a
  leading minus sign for a negative number.
\<close>

definition digit_char :: "nat \<Rightarrow> char" where
  "digit_char d = ''0123456789'' ! d"

fun digits :: "nat \<Rightarrow> string" where
  "digits n = (if n < 10 then [digit_char n] else digits (n div 10) @ [digit_char (n mod 10)])"

declare digits.simps [simp del]

definition str_int :: "int \<Rightarrow> string" where
  "str_int i = (if i < 0 then CHR ''-'' # digits (nat (- i)) else digits (nat i))"

text \<open>The characters of the messages beyond ASCII, as their UTF-8 bytes.\<close>

definition cross_mark :: string where
  "cross_mark = [CHR 0xE2, CHR 0x9D, CHR 0x8C]"

definition check_mark :: string where
  "check_mark = [CHR 0xE2, CHR 0x9C, CHR 0x85]"

definition world_map_sign :: string where
  "world_map_sign = [CHR 0xF0, CHR 0x9F, CHR 0x97, CHR 0xBA, CHR 0xEF, CHR 0xB8, CHR 0x8F]"

definition round_pushpin :: string where
  "round_pushpin = [CHR 0xF0, CHR 0x9F, CHR 0x93, CHR 0x8D]"

definition warning_sign :: string where
  "warning_sign = [CHR 0xE2, CHR 0x9A, CHR 0xA0, CHR 0xEF, CHR 0xB8, CHR 0x8F]"

section \<open>The map\<close>

record marker =
  marker_location :: "rat list"
  marker_popup :: string
  marker_popup_max_width :: int
  marker_icon_color :: string
  marker_icon :: string

record circle =
  circle_location :: "rat list"
  circle_radius :: int
  circle_color :: string
  circle_fill :: bool
  circle_fill_opacity :: rat
  circle_popup :: string

datatype child = Marker marker | Circle circle

record map_object =
  map_location :: "rat list"
  map_zoom_start :: int
  map_tiles :: string
  map_children :: "child list"

definition add_to :: "child \<Rightarrow> map_object \<Rightarrow> map_object" where
  "add_to c m = m\<lparr>map_children := map_children m @ [c]\<rparr>"

definition icon_color :: "string \<Rightarrow> string" where
  \<comment> \<open>line 87\<close>
  "icon_color prediction =
     (if prediction = ''High'' then ''red''
      else if prediction = ''Medium'' then ''orange''
      else ''green'')"

definition popup_text :: "string \<Rightarrow> int \<Rightarrow> string" where
  \<comment> \<open>the f-string of line 85\<close>
  "popup_text prediction dmg =
     ''<b>Risk Level:</b> '' @ prediction @ ''<br><b>Damage Scale:</b> '' @ str_int dmg"

definition user_marker :: "form \<Rightarrow> string \<Rightarrow> marker" where
  \<comment> \<open>lines 83 to 90\<close>
  "user_marker f prediction =
     \<lparr>marker_location = [latitude f, longitude f],
      marker_popup = popup_text prediction (damage_scale f),
      marker_popup_max_width = 250,
      marker_icon_color = icon_color prediction,
      marker_icon = ''info-sign''\<rparr>"

definition high_risk_states :: "(string \<times> rat list) list" where
  \<comment> \<open>lines 93 to 99: a dict literal, iterated in insertion order\<close>
  "high_risk_states =
     [(''Bihar'', [to_double (259 / 10), to_double (851 / 10)]),
      (''Assam'', [to_double (262 / 10), to_double (917 / 10)]),
      (''Odisha'', [to_double (209 / 10), to_double (851 / 10)]),
      (''Uttarakhand'', [to_double (301 / 10), to_double (793 / 10)]),
      (''Tamil Nadu'', [to_double (111 / 10), to_double (787 / 10)])]"

definition risk_circle :: "string \<Rightarrow> rat list \<Rightarrow> circle" where
  \<comment> \<open>lines 102 to 109\<close>
  "risk_circle state coords =
     \<lparr>circle_location = coords,
      circle_radius = 50000,
      circle_color = ''red'',
      circle_fill = True,
      circle_fill_opacity = to_double (3 / 10),
      circle_popup = ''High Risk Area: '' @ state\<rparr>"

fun add_circles :: "(string \<times> rat list) list \<Rightarrow> map_object \<Rightarrow> map_object" where
  \<comment> \<open>the loop of line 101\<close>
  "add_circles [] m = m"
| "add_circles ((state, coords) # rest) m =
     add_circles rest (add_to (Circle (risk_circle state coords)) m)"

definition build_map :: "form \<Rightarrow> string \<Rightarrow> map_object" where
  \<comment> \<open>lines 76 to 109\<close>
  "build_map f prediction =
     (let map_object = \<lparr>map_location = [latitude f, longitude f],
                         map_zoom_start = 6,
                         map_tiles = ''CartoDB dark_matter'',
                         map_children = []\<rparr>;
          map_object = add_to (Marker (user_marker f prediction)) map_object
      in add_circles high_risk_states map_object)"

section \<open>The script\<close>

text \<open>
  An exception of class \<^verbatim>\<open>Exception\<close> that the script catches is modelled by its message
  \<^verbatim>\<open>str(e)\<close>, which is all the handler uses. The classifier is the unpickled object: its
  \<^verbatim>\<open>predict\<close> takes the rows and returns the sequence of labels, or raises.
\<close>

type_synonym model = "pyval list list \<Rightarrow> string + string list"

text \<open>
  An exception nothing catches ends the run. It is one raised with a message, or the
  \<^verbatim>\<open>UnicodeDecodeError\<close> of a text-mode read, kept by its class alone.
\<close>

datatype exn = Raised string | UnicodeDecodeError

text \<open>
  What may sit at the path of the map file: a regular file with its bytes, or something
  \<^verbatim>\<open>os.path.exists\<close> reports and \<^verbatim>\<open>open\<close> raises \<^verbatim>\<open>OSError\<close> on, with that message (a
  directory, a file the process may not read).
\<close>

datatype entry = Regular string | Unopenable string

text \<open>
  The strict UTF-8 decoder accepts exactly the well-formed byte sequences: no overlong
  form, no surrogate, nothing above U+10FFFF. A decoded \<^verbatim>\<open>str\<close> is kept as its UTF-8
  bytes, as the messages are.
\<close>

definition continuation :: "nat \<Rightarrow> bool" where
  "continuation b \<longleftrightarrow> 0x80 \<le> b \<and> b \<le> 0xBF"

fun utf8_valid :: "nat list \<Rightarrow> bool" where
  "utf8_valid [] = True"
| "utf8_valid (b # bs) =
     (if b < 0x80 then utf8_valid bs
      else if 0xC2 \<le> b \<and> b \<le> 0xDF then
        (case bs of c1 # r \<Rightarrow> continuation c1 \<and> utf8_valid r | _ \<Rightarrow> False)
      else if b = 0xE0 then
        (case bs of
           c1 # c2 # r \<Rightarrow> 0xA0 \<le> c1 \<and> c1 \<le> 0xBF \<and> continuation c2 \<and> utf8_valid r
         | _ \<Rightarrow> False)
      else if b = 0xED then
        (case bs of
           c1 # c2 # r \<Rightarrow> 0x80 \<le> c1 \<and> c1 \<le> 0x9F \<and> continuation c2 \<and> utf8_valid r
         | _ \<Rightarrow> False)
      else if 0xE1 \<le> b \<and> b \<le> 0xEF then
        (case bs of
           c1 # c2 # r \<Rightarrow> continuation c1 \<and> continuation c2 \<and> utf8_valid r
         | _ \<Rightarrow> False)
      else if b = 0xF0 then
        (case bs of
           c1 # c2 # c3 # r \<Rightarrow>
             0x90 \<le> c1 \<and> c1 \<le> 0xBF \<and> continuation c2 \<and> continuation c3 \<and> utf8_valid r
         | _ \<Rightarrow> False)
      else if 0xF1 \<le> b \<and> b \<le> 0xF3 then
        (case bs of
           c1 # c2 # c3 # r \<Rightarrow>
             continuation c1 \<and> continuation c2 \<and> continuation c3 \<and> utf8_valid r
         | _ \<Rightarrow> False)
      else if b = 0xF4 then
        (case bs of
           c1 # c2 # c3 # r \<Rightarrow>
             0x80 \<le> c1 \<and> c1 \<le> 0x8F \<and> continuation c2 \<and> continuation c3 \<and> utf8_valid r
         | _ \<Rightarrow> False)
      else False)"

fun universal_newlines :: "string \<Rightarrow> string" where
  \<comment> \<open>text mode with the default \<^verbatim>\<open>newline=None\<close>: CR LF and a lone CR are read as LF\<close>
  "universal_newlines [] = []"
| "universal_newlines [c] = [if c = CHR 0x0D then CHR 0x0A else c]"
| "universal_newlines (c # d # cs) =
     (if c = CHR 0x0D \<and> d = CHR 0x0A then CHR 0x0A # universal_newlines cs
      else if c = CHR 0x0D then CHR 0x0A # universal_newlines (d # cs)
      else c # universal_newlines (d # cs))"

definition read_text :: "entry \<Rightarrow> exn + string" where
  \<comment> \<open>lines 127 and 128: \<^verbatim>\<open>open(..., "r", encoding="utf-8")\<close>, then \<^verbatim>\<open>f.read()\<close>\<close>
  "read_text en =
     (case en of
        Unopenable e \<Rightarrow> Inl (Raised e)
      | Regular bytes \<Rightarrow>
          (if utf8_valid (map of_char bytes) then Inr (universal_newlines bytes)
           else Inl UnicodeDecodeError))"

text \<open>
  What the script reads and writes outside itself: the two files, and the memo table of
  \<^verbatim>\<open>st.cache_resource\<close> for \<^verbatim>\<open>load_model\<close>, which lives as long as the process and
  stores whatever the first completed call returned, \<^verbatim>\<open>None\<close> included. The model file is
  absent, or holds something \<^verbatim>\<open>joblib.load\<close> raises on, or holds a model. The path of
  the map file is free (\<^verbatim>\<open>os.path.exists\<close> is false) or holds an entry.
\<close>

record world =
  disaster_model_pkl :: "(string + model) option"
  disaster_risk_map_html :: "entry option"
  cache_resource :: "model option option"

text \<open>
  The library calls of the map stage, whose outcome the script does not decide: whether a
  folium constructor raises, whether \<^verbatim>\<open>save\<close> raises (and what it then leaves in the file),
  whether \<^verbatim>\<open>folium_static\<close> raises, and the bytes folium writes for a map.
\<close>

record env =
  folium_raises :: "string option"
  save_raises :: "(string \<times> entry option) option"
  folium_static_raises :: "string option"
  render :: "map_object \<Rightarrow> string"

datatype event =
    StError string
  | StSuccess string
  | StHeader string
  | StSubheader string
  | StWarning string
  | Predict "pyval list list"
  | Save map_object
  | FoliumStatic map_object
  | ComponentsHtml string

datatype outcome = Completed | Stopped | Uncaught exn

definition load_model :: "world \<Rightarrow> string + model option" where
  \<comment> \<open>lines 21 to 26, without the decorator\<close>
  "load_model w =
     (case disaster_model_pkl w of
        None \<Rightarrow> Inr None
      | Some (Inl e) \<Rightarrow> Inl e
      | Some (Inr m) \<Rightarrow> Inr (Some m))"

definition cached_load_model :: "world \<Rightarrow> (string + model option) \<times> world" where
  \<comment> \<open>line 20: the decorated function; a call that raises stores nothing\<close>
  "cached_load_model w =
     (case cache_resource w of
        Some r \<Rightarrow> (Inr r, w)
      | None \<Rightarrow>
          (case load_model w of
             Inl e \<Rightarrow> (Inl e, w)
           | Inr r \<Rightarrow> (Inr r, w\<lparr>cache_resource := Some r\<rparr>)))"

definition first_prediction :: "string + string list \<Rightarrow> string + string" where
  \<comment> \<open>\<^verbatim>\<open>model.predict(input_features)[0]\<close>: indexing an empty sequence raises IndexError\<close>
  "first_prediction r =
     (case r of
        Inl e \<Rightarrow> Inl e
      | Inr [] \<Rightarrow> Inl ''list index out of range''
      | Inr (l # _) \<Rightarrow> Inr l)"

definition model_not_found :: string where
  \<comment> \<open>line 31\<close>
  "model_not_found =
     cross_mark @ '' Model file not found. Please ensure '' @ [CHR 0x27] @ ''disaster_model.pkl''
       @ [CHR 0x27] @ '' is available in the app directory.''"

definition predicted_risk_level :: "string \<Rightarrow> string" where
  \<comment> \<open>line 68\<close>
  "predicted_risk_level prediction =
     check_mark @ '' **Predicted Risk Level: `'' @ prediction @ ''`**''"

definition prediction_failed :: "string \<Rightarrow> string" where
  \<comment> \<open>line 119\<close>
  "prediction_failed e = cross_mark @ '' Prediction failed: '' @ e"

definition map_not_found :: string where
  \<comment> \<open>line 130\<close>
  "map_not_found =
     warning_sign @ '' Full map file '' @ [CHR 0x27] @ ''disaster_risk_map.html'' @ [CHR 0x27]
       @ '' not found.''"

definition try_body :: "env \<Rightarrow> model \<Rightarrow> form \<Rightarrow> world \<Rightarrow> event list \<times> string option \<times> world" where
  \<comment> \<open>lines 67 to 116: the events so far, the exception that ended the block if one did,
      and the files as the block left them\<close>
  "try_body en model f w =
     (case first_prediction (model (input_features f)) of
        Inl e \<Rightarrow> ([Predict (input_features f)], Some e, w)
      | Inr prediction \<Rightarrow>
          (let evs = [Predict (input_features f),
                      StSuccess (predicted_risk_level prediction),
                      StHeader (world_map_sign @ '' Visualize Location on Risk Map'')]
           in case folium_raises en of
                Some e \<Rightarrow> (evs, Some e, w)
              | None \<Rightarrow>
                  (let map_object = build_map f prediction
                   in case save_raises en of
                        Some (e, left) \<Rightarrow>
                          (evs @ [Save map_object], Some e, w\<lparr>disaster_risk_map_html := left\<rparr>)
                      | None \<Rightarrow>
                          (let w' = w\<lparr>disaster_risk_map_html :=
                                       Some (Regular (render en map_object))\<rparr>;
                               evs' = evs @ [Save map_object, FoliumStatic map_object]
                           in case folium_static_raises en of
                                Some e \<Rightarrow> (evs', Some e, w')
                              | None \<Rightarrow> (evs', None, w')))))"

definition try_except :: "env \<Rightarrow> model \<Rightarrow> form \<Rightarrow> world \<Rightarrow> event list \<times> world" where
  \<comment> \<open>lines 66 to 119\<close>
  "try_except en model f w =
     (case try_body en model f w of
        (evs, Some e, w') \<Rightarrow> (evs @ [StError (prediction_failed e)], w')
      | (evs, None, w') \<Rightarrow> (evs, w'))"

definition full_risk_map :: "world \<Rightarrow> event list \<times> exn option" where
  \<comment> \<open>lines 124 to 130, outside the \<^verbatim>\<open>try\<close> statement: the events, and the exception of
      the read if it raises\<close>
  "full_risk_map w =
     (case disaster_risk_map_html w of
        None \<Rightarrow>
          ([StSubheader (round_pushpin @ '' View Full Risk Map''), StWarning map_not_found],
           None)
      | Some en \<Rightarrow>
          (case read_text en of
             Inl x \<Rightarrow> ([StSubheader (round_pushpin @ '' View Full Risk Map'')], Some x)
           | Inr html \<Rightarrow>
               ([StSubheader (round_pushpin @ '' View Full Risk Map''), ComponentsHtml html],
                None)))"

definition run_outcome :: "exn option \<Rightarrow> outcome" where
  "run_outcome x = (case x of None \<Rightarrow> Completed | Some e \<Rightarrow> Uncaught e)"

definition on_submit ::
  "env \<Rightarrow> model \<Rightarrow> form \<Rightarrow> world \<Rightarrow> event list \<times> exn option \<times> world" where
  \<comment> \<open>lines 57 to 130, the body of \<^verbatim>\<open>if submitted\<close>\<close>
  "on_submit en model f w =
     (let (evs, w') = try_except en model f w;
          (evs', x) = full_risk_map w'
      in (evs @ evs', x, w'))"

definition script :: "env \<Rightarrow> form \<Rightarrow> world \<Rightarrow> event list \<times> outcome \<times> world" where
  \<comment> \<open>one run of the script, from line 28 on; the page title and the widgets of the form
      are not recorded as events\<close>
  "script en f w =
     (case cached_load_model w of
        (Inl e, w') \<Rightarrow> ([], Uncaught (Raised e), w')
      | (Inr None, w') \<Rightarrow> ([StError model_not_found], Stopped, w')
      | (Inr (Some model), w') \<Rightarrow>
          (if submitted f
           then (let (evs, x, w'') = on_submit en model f w' in (evs, run_outcome x, w''))
           else ([], Completed, w')))"

text \<open>
  A session is the sequence of runs of one process: every interaction reruns the script.
  Between two runs the model file may appear, change or vanish; the memo table is the
  process's own.
\<close>

type_synonym step = "env \<times> form \<times> (string + model) option"

fun session :: "world \<Rightarrow> step list \<Rightarrow> (event list \<times> outcome) list" where
  "session w [] = []"
| "session w ((en, f, pkl) # rest) =
     (let (evs, out, w') = script en f (w\<lparr>disaster_model_pkl := pkl\<rparr>)
      in (evs, out) # session w' rest)"

section \<open>Values used in the statements\<close>

definition decimal_value :: "string \<Rightarrow> nat" where
  \<comment> \<open>the number a string of decimal digits denotes\<close>
  "decimal_value s = foldl (\<lambda>a c. 10 * a + (of_char c - 48)) 0 s"

definition example_form :: form where
  \<comment> \<open>the defaults of the form, submitted\<close>
  "example_form =
     \<lparr>disaster_score = 5, pop_density = 5000, latitude = to_double (225 / 10),
      urban_level = to_double (5 / 10), houses_affected = 100, deaths = 10,
      longitude = to_double (789 / 10), submitted = True\<rparr>"

fun circles :: "child list \<Rightarrow> circle list" where
  \<comment> \<open>the circular overlays among the children of a map, in drawing order\<close>
  "circles [] = []"
| "circles (Circle c # cs) = c # circles cs"
| "circles (Marker m # cs) = circles cs"

definition map_stage_exception :: "env \<Rightarrow> string option" where
  \<comment> \<open>the first exception of the map stage: construction, then saving, then display\<close>
  "map_stage_exception en =
     (case folium_raises en of
        Some e \<Rightarrow> Some e
      | None \<Rightarrow>
          (case save_raises en of
             Some (e, left) \<Rightarrow> Some e
           | None \<Rightarrow> folium_static_raises en))"

definition is_map_call :: "event \<Rightarrow> bool" where
  "is_map_call ev = (case ev of Save m \<Rightarrow> True | FoliumStatic m \<Rightarrow> True | _ \<Rightarrow> False)"

definition high_model :: model where
  \<comment> \<open>a classifier that answers \<open>High\<close> for every row\<close>
  "high_model rows = Inr (map (\<lambda>row. ''High'') rows)"

definition raising_model :: model where
  \<comment> \<open>a classifier whose \<^verbatim>\<open>predict\<close> raises\<close>
  "raising_model rows = Inl ''X has 7 features, but the classifier is expecting 5''"

definition quiet_env :: env where
  \<comment> \<open>no library call of the map stage raises\<close>
  "quiet_env =
     \<lparr>folium_raises = None, save_raises = None, folium_static_raises = None,
      render = (\<lambda>m. ''<html>'' @ concat (map circle_popup (circles (map_children m))))\<rparr>"

definition disk_full_env :: env where
  \<comment> \<open>\<^verbatim>\<open>save\<close> raises in the middle of writing, the file ending inside a character\<close>
  "disk_full_env =
     quiet_env\<lparr>save_raises := Some (''No space left on device'', Some (Regular [CHR 0xE2]))\<rparr>"

definition fresh_world :: "(string + model) option \<Rightarrow> world" where
  \<comment> \<open>a process that has just started: nothing memoised, no map written yet\<close>
  "fresh_world pkl =
     \<lparr>disaster_model_pkl = pkl, disaster_risk_map_html = None, cache_resource = None\<rparr>"

section \<open>Decimal strings\<close>

lemma digit_char_value: "d < 10 \<Longrightarrow> of_char (digit_char d) = (48 + d :: nat)"
proof -
  assume "d < 10"
  then have "d \<in> {0, 1, 2, 3, 4, 5, 6, 7, 8, 9}"
    by auto
  then show ?thesis
    by (auto simp: digit_char_def)
qed

lemma digit_char_is_digit: "d < 10 \<Longrightarrow> digit_char d \<in> set ''0123456789''"
  unfolding digit_char_def by (rule nth_mem) simp

lemma digits_not_empty: "digits n \<noteq> []"
  by (subst digits.simps) simp

lemma digits_are_digits: "set (digits n) \<subseteq> set ''0123456789''"
proof (induction n rule: digits.induct)
  case (1 n)
  show ?case
  proof (cases "n < 10")
    case True
    then show ?thesis using digit_char_is_digit [of n] by (subst digits.simps) simp
  next
    case False
    have "n mod 10 < 10" by simp
    then have "digit_char (n mod 10) \<in> set ''0123456789''" by (rule digit_char_is_digit)
    with False 1 show ?thesis by (subst digits.simps) simp
  qed
qed

lemma decimal_value_snoc: "decimal_value (s @ [c]) = 10 * decimal_value s + (of_char c - 48)"
  by (simp add: decimal_value_def)

lemma decimal_value_digits: "decimal_value (digits n) = n"
proof (induction n rule: digits.induct)
  case (1 n)
  show ?case
  proof (cases "n < 10")
    case True
    then show ?thesis
      by (subst digits.simps) (simp add: decimal_value_def digit_char_value)
  next
    case False
    with 1 have "decimal_value (digits (n div 10)) = n div 10" by simp
    with False show ?thesis
      by (subst digits.simps) (simp add: decimal_value_snoc digit_char_value)
  qed
qed

section \<open>The marker\<close>

text \<open>
  C10. With the houses affected in 0..10000 and the deaths in 0..1000, as the form accepts
  them, \<open>damage_scale\<close> is an integer between 0 and 20000, and the popup of the marker ends
  with it written as an integer: decimal digits only, no sign and no fraction, denoting
  that number.
\<close>

theorem damage_scale_bounds:
  assumes "0 \<le> houses_affected f" and "houses_affected f \<le> 10000"
    and "0 \<le> deaths f" and "deaths f \<le> 1000"
  shows "0 \<le> damage_scale f \<and> damage_scale f \<le> 20000 \<and>
         marker_popup (user_marker f prediction) =
           ''<b>Risk Level:</b> '' @ prediction @ ''<br><b>Damage Scale:</b> ''
             @ str_int (damage_scale f) \<and>
         str_int (damage_scale f) \<noteq> [] \<and>
         set (str_int (damage_scale f)) \<subseteq> set ''0123456789'' \<and>
         int (decimal_value (str_int (damage_scale f))) = damage_scale f"
proof -
  have nonneg: "0 \<le> damage_scale f" and le: "damage_scale f \<le> 20000"
    using assms by (simp_all add: damage_scale_def)
  then have str: "str_int (damage_scale f) = digits (nat (damage_scale f))"
    by (simp add: str_int_def)
  have popup: "marker_popup (user_marker f prediction) =
      ''<b>Risk Level:</b> '' @ prediction @ ''<br><b>Damage Scale:</b> ''
        @ str_int (damage_scale f)"
    by (simp add: user_marker_def popup_text_def)
  show ?thesis
    using nonneg le popup digits_not_empty digits_are_digits decimal_value_digits
    unfolding str by simp
qed

theorem damage_scale_bounds_witness:
  "0 \<le> houses_affected example_form \<and> houses_affected example_form \<le> 10000 \<and>
   0 \<le> deaths example_form \<and> deaths example_form \<le> 1000 \<and>
   damage_scale example_form = 200 \<and>
   marker_popup (user_marker example_form ''High'') =
     ''<b>Risk Level:</b> High<br><b>Damage Scale:</b> 200'' \<and>
   set (str_int (damage_scale example_form)) \<subseteq> set ''0123456789''"
proof -
  have h: "0 \<le> houses_affected example_form" "houses_affected example_form \<le> 10000"
    "0 \<le> deaths example_form" "deaths example_form \<le> 1000"
    by (simp_all add: example_form_def)
  have d: "damage_scale example_form = 200"
    by (simp add: damage_scale_def example_form_def)
  have s: "str_int 200 = ''200''"
    by code_simp
  from damage_scale_bounds [OF h, of "''High''"] show ?thesis
    using h by (simp add: d s)
qed

text \<open>
  C5. The colour of the marker's icon is defined for every label: red for \<open>High\<close>, orange
  for \<open>Medium\<close>, green for every other string, and that is the colour the marker of the
  map carries.
\<close>

theorem icon_color_rule:
  "icon_color ''High'' = ''red'' \<and> icon_color ''Medium'' = ''orange'' \<and>
   (\<forall>l. l \<noteq> ''High'' \<and> l \<noteq> ''Medium'' \<longrightarrow> icon_color l = ''green'') \<and>
   (\<forall>f l. marker_icon_color (user_marker f l) = icon_color l)"
  by (simp add: icon_color_def user_marker_def)

theorem icon_color_rule_witness:
  "''Low'' \<noteq> ''High'' \<and> ''Low'' \<noteq> ''Medium'' \<and> icon_color ''Low'' = ''green'' \<and>
   ''Unknown'' \<noteq> ''High'' \<and> ''Unknown'' \<noteq> ''Medium'' \<and> icon_color ''Unknown'' = ''green'' \<and>
   icon_color [] = ''green''"
  using icon_color_rule by simp

section \<open>Runs of the script\<close>

lemma first_prediction_cases:
  "(\<exists>e. first_prediction r = Inl e) \<or> (\<exists>l. first_prediction r = Inr l)"
  by (cases "first_prediction r") auto

lemma try_body_raise:
  "first_prediction (m (input_features f)) = Inl e \<Longrightarrow>
   try_body en m f w = ([Predict (input_features f)], Some e, w)"
  by (simp add: try_body_def)

lemma try_body_events:
  "\<exists>rest. fst (try_body en m f w) = Predict (input_features f) # rest \<and>
          (\<forall>rows. Predict rows \<notin> set rest)"
  by (auto simp: try_body_def Let_def split: sum.splits option.splits prod.splits)

lemma try_except_events:
  "\<exists>rest. fst (try_except en m f w) = Predict (input_features f) # rest \<and>
          (\<forall>rows. Predict rows \<notin> set rest)"
proof -
  obtain evs x w' where tb: "try_body en m f w = (evs, x, w')"
    by (cases "try_body en m f w") auto
  from try_body_events [of en m f w] tb obtain rest
    where "evs = Predict (input_features f) # rest" "\<forall>rows. Predict rows \<notin> set rest"
    by auto
  then show ?thesis
    by (cases x) (auto simp: try_except_def tb)
qed


lemma full_risk_map_no_map_call:
  "ev \<in> set (fst (full_risk_map w)) \<Longrightarrow> \<not> is_map_call ev"
  by (auto simp: full_risk_map_def is_map_call_def split: option.splits sum.splits)



lemma script_loaded:
  assumes "cached_load_model w = (Inr (Some m), w1)" and "submitted f"
  shows "script en f w =
           (fst (try_except en m f w1) @ fst (full_risk_map (snd (try_except en m f w1))),
            run_outcome (snd (full_risk_map (snd (try_except en m f w1)))),
            snd (try_except en m f w1))"
  using assms by (simp add: script_def on_submit_def split: prod.splits)

lemma try_except_ok:
  assumes "first_prediction (m (input_features f)) = Inr l"
    and "folium_raises en = None" and "save_raises en = None"
    and "folium_static_raises en = None"
  shows "try_except en m f w =
     ([Predict (input_features f),
       StSuccess (predicted_risk_level l),
       StHeader (world_map_sign @ '' Visualize Location on Risk Map''),
       Save (build_map f l),
       FoliumStatic (build_map f l)],
      w\<lparr>disaster_risk_map_html := Some (Regular (render en (build_map f l)))\<rparr>)"
  using assms by (simp add: try_except_def try_body_def Let_def)

lemma fresh_load:
  "cached_load_model (fresh_world (Some (Inr m))) =
     (Inr (Some m), (fresh_world (Some (Inr m)))\<lparr>cache_resource := Some (Some m)\<rparr>)"
  by (simp add: cached_load_model_def load_model_def fresh_world_def)

lemma high_model_first: "first_prediction (high_model (input_features f)) = Inr ''High''"
  by (simp add: first_prediction_def high_model_def input_features_def)

lemma quiet_env_simps:
  "folium_raises quiet_env = None" "save_raises quiet_env = None"
  "folium_static_raises quiet_env = None"
  by (simp_all add: quiet_env_def)

lemma submitted_example: "submitted example_form"
  by (simp add: example_form_def)

lemma quiet_run:
  "\<exists>tail.
     fst (script quiet_env example_form (fresh_world (Some (Inr high_model)))) =
       [Predict (input_features example_form),
        StSuccess (predicted_risk_level ''High''),
        StHeader (world_map_sign @ '' Visualize Location on Risk Map''),
        Save (build_map example_form ''High''),
        FoliumStatic (build_map example_form ''High'')] @ tail"
  by (simp add: script_loaded [OF fresh_load submitted_example]
      try_except_ok [where m = high_model and f = example_form and en = quiet_env,
        OF high_model_first quiet_env_simps])



section \<open>The overlays\<close>

lemma circles_snoc: "circles (cs @ [Circle c]) = circles cs @ [c]"
  by (induction cs rule: circles.induct) simp_all

lemma circles_add_circles:
  "circles (map_children (add_circles rs m)) =
     circles (map_children m) @ map (\<lambda>(state, coords). risk_circle state coords) rs"
  by (induction rs m rule: add_circles.induct) (simp_all add: add_to_def circles_snoc)

lemma circles_build_map:
  "circles (map_children (build_map f l)) =
     map (\<lambda>(state, coords). risk_circle state coords) high_risk_states"
  by (simp add: build_map_def circles_add_circles add_to_def)

lemma try_body_map_calls:
  "\<forall>ev \<in> set (fst (try_body en m f w)). is_map_call ev \<longrightarrow>
     (\<exists>l. first_prediction (m (input_features f)) = Inr l \<and>
          (ev = Save (build_map f l) \<or> ev = FoliumStatic (build_map f l)))"
  by (auto simp: try_body_def Let_def is_map_call_def split: sum.splits option.splits prod.splits)

lemma try_except_map_calls:
  assumes "ev \<in> set (fst (try_except en m f w))" and "is_map_call ev"
  shows "\<exists>l. first_prediction (m (input_features f)) = Inr l \<and>
          (ev = Save (build_map f l) \<or> ev = FoliumStatic (build_map f l))"
proof -
  obtain evs x w' where tb: "try_body en m f w = (evs, x, w')"
    by (cases "try_body en m f w") auto
  from assms have "ev \<in> set evs"
    by (cases x) (auto simp: try_except_def tb is_map_call_def)
  with try_body_map_calls [of en m f w] tb assms(2) show ?thesis
    by auto
qed

lemma script_map_calls:
  assumes "ev \<in> set (fst (script en f w))" and "is_map_call ev"
  shows "\<exists>l. ev = Save (build_map f l) \<or> ev = FoliumStatic (build_map f l)"
proof -
  obtain r w1 where cl: "cached_load_model w = (r, w1)"
    by (cases "cached_load_model w") auto
  show ?thesis
  proof (cases r)
    case (Inl e)
    with assms cl show ?thesis by (simp add: script_def)
  next
    case (Inr mo)
    show ?thesis
    proof (cases mo)
      case None
      with assms cl Inr show ?thesis by (auto simp: script_def is_map_call_def)
    next
      case (Some m)
      show ?thesis
      proof (cases "submitted f")
        case False
        with assms cl Inr Some show ?thesis by (simp add: script_def)
      next
        case True
        from cl Inr Some have "cached_load_model w = (Inr (Some m), w1)" by simp
        from script_loaded [OF this True, of en] assms
        have "ev \<in> set (fst (try_except en m f w1))"
          using full_risk_map_no_map_call [of ev "snd (try_except en m f w1)"]
          by auto
        from try_except_map_calls [OF this assms(2)] show ?thesis by blast
      qed
    qed
  qed
qed

text \<open>
  C6. Every map a run saves or displays carries exactly the five overlays Bihar, Assam,
  Odisha, Uttarakhand and Tamil Nadu, in that order, at their fixed coordinates and with
  the fixed radius, colour and opacity, whatever the form and the predicted label are.
\<close>

theorem overlay_regions_fixed:
  assumes "Save m \<in> set (fst (script en f w)) \<or> FoliumStatic m \<in> set (fst (script en f w))"
  shows "map (\<lambda>c. (circle_popup c, circle_location c)) (circles (map_children m)) =
           [(''High Risk Area: Bihar'', [to_double (259 / 10), to_double (851 / 10)]),
            (''High Risk Area: Assam'', [to_double (262 / 10), to_double (917 / 10)]),
            (''High Risk Area: Odisha'', [to_double (209 / 10), to_double (851 / 10)]),
            (''High Risk Area: Uttarakhand'', [to_double (301 / 10), to_double (793 / 10)]),
            (''High Risk Area: Tamil Nadu'', [to_double (111 / 10), to_double (787 / 10)])] \<and>
         (\<forall>c \<in> set (circles (map_children m)).
            circle_radius c = 50000 \<and> circle_color c = ''red'' \<and> circle_fill c \<and>
            circle_fill_opacity c = to_double (3 / 10))"
proof -
  from assms obtain ev where ev: "ev \<in> set (fst (script en f w))" "is_map_call ev"
    "ev = Save m \<or> ev = FoliumStatic m"
    by (auto simp: is_map_call_def)
  from script_map_calls [OF ev(1,2)] ev(3) obtain l where "m = build_map f l"
    by auto
  then show ?thesis
    by (simp add: circles_build_map high_risk_states_def risk_circle_def)
qed

theorem overlay_regions_fixed_witness:
  "FoliumStatic (build_map example_form ''High'')
     \<in> set (fst (script quiet_env example_form (fresh_world (Some (Inr high_model))))) \<and>
   map (\<lambda>c. (circle_popup c, circle_location c))
     (circles (map_children (build_map example_form ''High''))) =
     [(''High Risk Area: Bihar'', [to_double (259 / 10), to_double (851 / 10)]),
      (''High Risk Area: Assam'', [to_double (262 / 10), to_double (917 / 10)]),
      (''High Risk Area: Odisha'', [to_double (209 / 10), to_double (851 / 10)]),
      (''High Risk Area: Uttarakhand'', [to_double (301 / 10), to_double (793 / 10)]),
      (''High Risk Area: Tamil Nadu'', [to_double (111 / 10), to_double (787 / 10)])]"
proof -
  have mem: "FoliumStatic (build_map example_form ''High'')
     \<in> set (fst (script quiet_env example_form (fresh_world (Some (Inr high_model)))))"
    using quiet_run by auto
  then have "Save (build_map example_form ''High'')
       \<in> set (fst (script quiet_env example_form (fresh_world (Some (Inr high_model))))) \<or>
     FoliumStatic (build_map example_form ''High'')
       \<in> set (fst (script quiet_env example_form (fresh_world (Some (Inr high_model)))))"
    by (rule disjI2)
  from overlay_regions_fixed [OF this]
  have "map (\<lambda>c. (circle_popup c, circle_location c))
     (circles (map_children (build_map example_form ''High''))) =
     [(''High Risk Area: Bihar'', [to_double (259 / 10), to_double (851 / 10)]),
      (''High Risk Area: Assam'', [to_double (262 / 10), to_double (917 / 10)]),
      (''High Risk Area: Odisha'', [to_double (209 / 10), to_double (851 / 10)]),
      (''High Risk Area: Uttarakhand'', [to_double (301 / 10), to_double (793 / 10)]),
      (''High Risk Area: Tamil Nadu'', [to_double (111 / 10), to_double (787 / 10)])]"
    by (rule conjunct1)
  from mem this show ?thesis by (rule conjI)
qed

section \<open>A session without the model file\<close>

lemma script_memo_none:
  assumes "cache_resource w = Some None"
  shows "script en f w = ([StError model_not_found], Stopped, w)"
  using assms by (simp add: script_def cached_load_model_def)

lemma script_absent:
  assumes "cache_resource w = None" and "disaster_model_pkl w = None"
  shows "script en f w = ([StError model_not_found], Stopped, w\<lparr>cache_resource := Some None\<rparr>)"
  using assms by (simp add: script_def cached_load_model_def load_model_def)

lemma session_memo_none:
  assumes "cache_resource w = Some None"
  shows "\<forall>run \<in> set (session w steps). run = ([StError model_not_found], Stopped)"
  using assms
proof (induction steps arbitrary: w)
  case Nil
  show ?case by simp
next
  case (Cons s steps)
  obtain en f pkl where s: "s = (en, f, pkl)"
    by (cases s) auto
  let ?w = "w\<lparr>disaster_model_pkl := pkl\<rparr>"
  have c: "cache_resource ?w = Some None"
    using Cons.prems by simp
  have run: "script en f ?w = ([StError model_not_found], Stopped, ?w)"
    by (rule script_memo_none [OF c])
  from Cons.IH [OF c] run show ?case
    by (simp add: s)
qed

text \<open>
  C3. When the first run of a process finds no model file, that run and every later run
  of the session report the model-not-found error and stop there, and none of them calls
  \<^verbatim>\<open>predict\<close>, even if the file appears later: the memoised \<^verbatim>\<open>None\<close> is what every rerun
  gets.
\<close>

theorem model_absent_no_prediction:
  assumes "cache_resource w = None"
  shows "\<forall>run \<in> set (session w ((en, f, None) # steps)).
           fst run = [StError model_not_found] \<and> snd run = Stopped \<and>
           (\<forall>rows. Predict rows \<notin> set (fst run))"
proof -
  let ?w = "w\<lparr>disaster_model_pkl := None\<rparr>"
  have "cache_resource ?w = None" and "disaster_model_pkl ?w = None"
    using assms by simp_all
  then have first: "script en f ?w =
      ([StError model_not_found], Stopped, ?w\<lparr>cache_resource := Some None\<rparr>)"
    by (rule script_absent)
  have "cache_resource (?w\<lparr>cache_resource := Some None\<rparr>) = Some None"
    by simp
  from session_memo_none [OF this, of steps] first
  have every: "\<forall>run \<in> set (session w ((en, f, None) # steps)).
      run = ([StError model_not_found], Stopped)"
    by simp
  show ?thesis
  proof (intro ballI)
    fix run
    assume "run \<in> set (session w ((en, f, None) # steps))"
    with every have "run = ([StError model_not_found], Stopped)"
      by blast
    then show "fst run = [StError model_not_found] \<and> snd run = Stopped \<and>
           (\<forall>rows. Predict rows \<notin> set (fst run))"
      by simp
  qed
qed

theorem model_absent_no_prediction_witness:
  "cache_resource (fresh_world None) = None \<and>
   length (session (fresh_world None)
     [(quiet_env, example_form, None), (quiet_env, example_form, Some (Inr high_model))]) = 2 \<and>
   session (fresh_world None)
     [(quiet_env, example_form, None), (quiet_env, example_form, Some (Inr high_model))] ! 1 =
     ([StError model_not_found], Stopped)"
proof -
  let ?runs = "session (fresh_world None)
     [(quiet_env, example_form, None), (quiet_env, example_form, Some (Inr high_model))]"
  have c: "cache_resource (fresh_world None) = None"
    by (simp add: fresh_world_def)
  have len: "length ?runs = 2"
    by (simp add: split_beta Let_def)
  then have "?runs ! 1 \<in> set ?runs"
    by (intro nth_mem) simp
  with model_absent_no_prediction [OF c, of quiet_env example_form
      "[(quiet_env, example_form, Some (Inr high_model))]"]
  have "fst (?runs ! 1) = [StError model_not_found] \<and> snd (?runs ! 1) = Stopped"
    by blast
  then have "?runs ! 1 = ([StError model_not_found], Stopped)"
    by (simp add: prod_eq_iff)
  with c len show ?thesis
    by blast
qed

section \<open>Exceptions inside the try statement\<close>

lemma cached_load_model_loaded:
  assumes "cached_load_model w = (Inr (Some m), w1)"
  shows "cache_resource w1 = Some (Some m)"
    and "disaster_risk_map_html w1 = disaster_risk_map_html w"
  using assms
  by (auto simp: cached_load_model_def split: option.splits sum.splits)

lemma cached_load_model_memo:
  assumes "cache_resource w = Some r"
  shows "cached_load_model w = (Inr r, w)"
  using assms by (simp add: cached_load_model_def)

lemma try_except_raise:
  assumes "first_prediction (m (input_features f)) = Inl e"
  shows "try_except en m f w = ([Predict (input_features f), StError (prediction_failed e)], w)"
  using assms by (simp add: try_except_def try_body_raise)

lemma first_prediction_raise: "r = Inl e \<Longrightarrow> first_prediction r = Inl e"
  by (simp add: first_prediction_def)

lemma full_risk_map_absent:
  assumes "disaster_risk_map_html w = None"
  shows "full_risk_map w =
    ([StSubheader (round_pushpin @ '' View Full Risk Map''), StWarning map_not_found], None)"
  using assms by (simp add: full_risk_map_def)

lemma full_risk_map_readable:
  assumes "disaster_risk_map_html w = Some (Regular bytes)"
    and "utf8_valid (map of_char bytes)"
  shows "full_risk_map w =
    ([StSubheader (round_pushpin @ '' View Full Risk Map''),
      ComponentsHtml (universal_newlines bytes)], None)"
  using assms by (simp add: full_risk_map_def read_text_def)

lemma next_run_predicts:
  assumes "cache_resource w = Some (Some m)" and "submitted f"
  shows "\<exists>rest out w2. script en f (w\<lparr>disaster_model_pkl := pkl\<rparr>) =
           (Predict (input_features f) # rest, out, w2)"
proof -
  let ?w = "w\<lparr>disaster_model_pkl := pkl\<rparr>"
  have "cache_resource ?w = Some (Some m)"
    using assms(1) by simp
  then have "cached_load_model ?w = (Inr (Some m), ?w)"
    by (rule cached_load_model_memo)
  from script_loaded [OF this assms(2), of en]
  have run: "script en f ?w =
      (fst (try_except en m f ?w) @ fst (full_risk_map (snd (try_except en m f ?w))),
       run_outcome (snd (full_risk_map (snd (try_except en m f ?w)))),
       snd (try_except en m f ?w))" .
  from try_except_events [of en m f ?w] obtain rest
    where "fst (try_except en m f ?w) = Predict (input_features f) # rest"
    by blast
  with run show ?thesis
    by simp
qed

text \<open>
  C4. When \<^verbatim>\<open>predict\<close> raises on a submission, the \<^verbatim>\<open>try\<close> statement ends normally: its
  handler shows \<open>Prediction failed:\<close> followed by the message of the exception, and the map
  file is as it was. The run goes on to the secondary display and calls neither
  \<^verbatim>\<open>save\<close> nor \<^verbatim>\<open>folium_static\<close>; the exception of \<^verbatim>\<open>predict\<close> is never the one that ends
  it, and it completes whenever the map file is absent or is readable text. The next
  submission is handled again, starting with its own call of \<^verbatim>\<open>predict\<close>.
\<close>

theorem predict_exception_caught:
  assumes "cached_load_model w = (Inr (Some m), w1)"
    and "submitted f"
    and "m (input_features f) = Inl e"
    and "submitted f2"
  shows "try_except en m f w1 =
           ([Predict (input_features f), StError (cross_mark @ '' Prediction failed: '' @ e)],
            w1) \<and>
         script en f w =
           ([Predict (input_features f), StError (cross_mark @ '' Prediction failed: '' @ e)]
              @ fst (full_risk_map w1), run_outcome (snd (full_risk_map w1)), w1) \<and>
         (\<forall>ev \<in> set (fst (script en f w)). \<not> is_map_call ev) \<and>
         disaster_risk_map_html w1 = disaster_risk_map_html w \<and>
         (disaster_risk_map_html w = None \<or>
          (\<exists>bytes. disaster_risk_map_html w = Some (Regular bytes) \<and>
                   utf8_valid (map of_char bytes)) \<longrightarrow>
            fst (snd (script en f w)) = Completed) \<and>
         (\<exists>rest out w2. script en2 f2 (w1\<lparr>disaster_model_pkl := pkl2\<rparr>) =
                          (Predict (input_features f2) # rest, out, w2))"
proof -
  have raise: "first_prediction (m (input_features f)) = Inl e"
    using assms(3) by (rule first_prediction_raise)
  have te: "try_except en m f w1 =
      ([Predict (input_features f), StError (cross_mark @ '' Prediction failed: '' @ e)], w1)"
    using raise by (simp add: try_except_raise prediction_failed_def)
  have run: "script en f w =
      ([Predict (input_features f), StError (cross_mark @ '' Prediction failed: '' @ e)]
         @ fst (full_risk_map w1), run_outcome (snd (full_risk_map w1)), w1)"
    by (simp add: script_loaded [OF assms(1,2)] te)
  have quiet: "\<forall>ev \<in> set (fst (script en f w)). \<not> is_map_call ev"
    using full_risk_map_no_map_call [of _ w1] by (auto simp: run is_map_call_def)
  have same_file: "disaster_risk_map_html w1 = disaster_risk_map_html w"
    by (rule cached_load_model_loaded(2) [OF assms(1)])
  have completes: "disaster_risk_map_html w = None \<or>
          (\<exists>bytes. disaster_risk_map_html w = Some (Regular bytes) \<and>
                   utf8_valid (map of_char bytes)) \<longrightarrow>
            fst (snd (script en f w)) = Completed"
    using same_file
    by (auto simp: run full_risk_map_absent full_risk_map_readable run_outcome_def)
  have next_run: "\<exists>rest out w2. script en2 f2 (w1\<lparr>disaster_model_pkl := pkl2\<rparr>) =
                          (Predict (input_features f2) # rest, out, w2)"
    by (rule next_run_predicts [OF cached_load_model_loaded(1) [OF assms(1)] assms(4)])
  show ?thesis
    by (intro conjI te run quiet same_file completes next_run)
qed

lemma raising_model_raises:
  "raising_model (input_features f) = Inl ''X has 7 features, but the classifier is expecting 5''"
  by (simp add: raising_model_def)

theorem predict_exception_caught_witness:
  "cached_load_model (fresh_world (Some (Inr raising_model))) =
     (Inr (Some raising_model),
      (fresh_world (Some (Inr raising_model)))\<lparr>cache_resource := Some (Some raising_model)\<rparr>) \<and>
   submitted example_form \<and>
   raising_model (input_features example_form) =
     Inl ''X has 7 features, but the classifier is expecting 5'' \<and>
   fst (script quiet_env example_form (fresh_world (Some (Inr raising_model)))) =
     [Predict (input_features example_form),
      StError (cross_mark @ '' Prediction failed: X has 7 features, but the classifier is expecting 5''),
      StSubheader (round_pushpin @ '' View Full Risk Map''),
      StWarning map_not_found] \<and>
   fst (snd (script quiet_env example_form (fresh_world (Some (Inr raising_model))))) = Completed"
proof -
  note inst = predict_exception_caught [where m = raising_model and f = example_form
      and en = quiet_env and ?en2.0 = quiet_env and ?pkl2.0 = None,
      OF fresh_load submitted_example raising_model_raises submitted_example]
  have "full_risk_map ((fresh_world (Some (Inr raising_model)))
      \<lparr>cache_resource := Some (Some raising_model)\<rparr>) =
      ([StSubheader (round_pushpin @ '' View Full Risk Map''), StWarning map_not_found], None)"
    by (simp add: full_risk_map_absent fresh_world_def)
  with inst fresh_load submitted_example raising_model_raises show ?thesis
    by (simp add: run_outcome_def)
qed





lemma try_except_map_stage:
  assumes "first_prediction (m (input_features f)) = Inr l"
    and "map_stage_exception en = Some e"
  shows "\<exists>calls w2.
           try_except en m f w =
             ([Predict (input_features f), StSuccess (predicted_risk_level l),
               StHeader (world_map_sign @ '' Visualize Location on Risk Map'')]
                @ calls @ [StError (prediction_failed e)], w2) \<and>
           (\<forall>ev \<in> set calls. is_map_call ev) \<and>
           (folium_raises en \<noteq> None \<longrightarrow>
              calls = [] \<and> disaster_risk_map_html w2 = disaster_risk_map_html w) \<and>
           (folium_raises en = None \<longrightarrow>
              (\<forall>e' left. save_raises en = Some (e', left) \<longrightarrow>
                 disaster_risk_map_html w2 = left))"
  using assms
  by (auto simp: try_except_def try_body_def map_stage_exception_def Let_def is_map_call_def
      split: option.splits prod.splits)

text \<open>
  C9. When \<^verbatim>\<open>predict\<close> has returned a label and a call of the map stage then raises, the
  \<^verbatim>\<open>try\<close> statement has already shown the predicted level and its one handler now shows
  \<open>Prediction failed:\<close> with the message of that exception. If a folium constructor raised,
  no map call was made and the map file is untouched; if \<^verbatim>\<open>save\<close> raised, the file holds
  whatever the interrupted write left, which the secondary display then tries to read.
\<close>

theorem map_stage_exception_reported:
  assumes "cached_load_model w = (Inr (Some m), w1)"
    and "submitted f"
    and "first_prediction (m (input_features f)) = Inr l"
    and "map_stage_exception en = Some e"
  shows "\<exists>calls w2.
           try_except en m f w1 =
             ([Predict (input_features f), StSuccess (predicted_risk_level l),
               StHeader (world_map_sign @ '' Visualize Location on Risk Map'')]
                @ calls @ [StError (cross_mark @ '' Prediction failed: '' @ e)], w2) \<and>
           script en f w =
             ([Predict (input_features f), StSuccess (predicted_risk_level l),
               StHeader (world_map_sign @ '' Visualize Location on Risk Map'')]
                @ calls @ [StError (cross_mark @ '' Prediction failed: '' @ e)]
                @ fst (full_risk_map w2), run_outcome (snd (full_risk_map w2)), w2) \<and>
           (\<forall>ev \<in> set calls. is_map_call ev) \<and>
           (folium_raises en \<noteq> None \<longrightarrow>
              calls = [] \<and> disaster_risk_map_html w2 = disaster_risk_map_html w) \<and>
           (folium_raises en = None \<longrightarrow>
              (\<forall>e' left. save_raises en = Some (e', left) \<longrightarrow>
                 disaster_risk_map_html w2 = left))"
proof -
  from try_except_map_stage [where m = m and f = f and l = l and en = en and e = e and w = w1,
      OF assms(3) assms(4)]
  obtain calls w2 where te: "try_except en m f w1 =
             ([Predict (input_features f), StSuccess (predicted_risk_level l),
               StHeader (world_map_sign @ '' Visualize Location on Risk Map'')]
                @ calls @ [StError (prediction_failed e)], w2)"
    and calls: "\<forall>ev \<in> set calls. is_map_call ev"
    and a: "folium_raises en \<noteq> None \<longrightarrow>
              calls = [] \<and> disaster_risk_map_html w2 = disaster_risk_map_html w1"
    and b: "folium_raises en = None \<longrightarrow>
              (\<forall>e' left. save_raises en = Some (e', left) \<longrightarrow>
                 disaster_risk_map_html w2 = left)"
    by (elim exE conjE) (rule that, assumption+)
  from te have te': "try_except en m f w1 =
             ([Predict (input_features f), StSuccess (predicted_risk_level l),
               StHeader (world_map_sign @ '' Visualize Location on Risk Map'')]
                @ calls @ [StError (cross_mark @ '' Prediction failed: '' @ e)], w2)"
    by (simp add: prediction_failed_def)
  have run: "script en f w =
             ([Predict (input_features f), StSuccess (predicted_risk_level l),
               StHeader (world_map_sign @ '' Visualize Location on Risk Map'')]
                @ calls @ [StError (cross_mark @ '' Prediction failed: '' @ e)]
                @ fst (full_risk_map w2), run_outcome (snd (full_risk_map w2)), w2)"
    by (simp add: script_loaded [OF assms(1,2)] te')
  from a cached_load_model_loaded(2) [OF assms(1)]
  have a': "folium_raises en \<noteq> None \<longrightarrow>
              calls = [] \<and> disaster_risk_map_html w2 = disaster_risk_map_html w"
    by simp
  show ?thesis
    by (rule exI [of _ calls], rule exI [of _ w2]) (intro conjI te' run calls a' b)
qed

theorem map_stage_exception_reported_witness:
  "cached_load_model (fresh_world (Some (Inr high_model))) =
     (Inr (Some high_model),
      (fresh_world (Some (Inr high_model)))\<lparr>cache_resource := Some (Some high_model)\<rparr>) \<and>
   submitted example_form \<and>
   first_prediction (high_model (input_features example_form)) = Inr ''High'' \<and>
   map_stage_exception disk_full_env = Some ''No space left on device'' \<and>
   (\<exists>calls w2.
      try_except disk_full_env high_model example_form
        ((fresh_world (Some (Inr high_model)))\<lparr>cache_resource := Some (Some high_model)\<rparr>) =
        ([Predict (input_features example_form), StSuccess (predicted_risk_level ''High''),
          StHeader (world_map_sign @ '' Visualize Location on Risk Map'')]
           @ calls @ [StError (cross_mark @ '' Prediction failed: No space left on device'')],
         w2) \<and>
      disaster_risk_map_html w2 = Some (Regular [CHR 0xE2])) \<and>
   script disk_full_env example_form (fresh_world (Some (Inr high_model))) =
     ([Predict (input_features example_form),
       StSuccess (predicted_risk_level ''High''),
       StHeader (world_map_sign @ '' Visualize Location on Risk Map''),
       Save (build_map example_form ''High''),
       StError (cross_mark @ '' Prediction failed: No space left on device''),
       StSubheader (round_pushpin @ '' View Full Risk Map'')],
      Uncaught UnicodeDecodeError,
      (fresh_world (Some (Inr high_model)))
        \<lparr>cache_resource := Some (Some high_model),
         disaster_risk_map_html := Some (Regular [CHR 0xE2])\<rparr>)"
proof -
  let ?w1 = "(fresh_world (Some (Inr high_model)))\<lparr>cache_resource := Some (Some high_model)\<rparr>"
  have raises: "map_stage_exception disk_full_env = Some ''No space left on device''"
    and ctor: "folium_raises disk_full_env = None"
    and save: "save_raises disk_full_env =
      Some (''No space left on device'', Some (Regular [CHR 0xE2]))"
    by (simp_all add: map_stage_exception_def disk_full_env_def quiet_env_def)
  from map_stage_exception_reported [where m = high_model and f = example_form
      and en = disk_full_env, OF fresh_load submitted_example high_model_first raises]
  obtain calls w2 where
    te: "try_except disk_full_env high_model example_form ?w1 =
             ([Predict (input_features example_form), StSuccess (predicted_risk_level ''High''),
               StHeader (world_map_sign @ '' Visualize Location on Risk Map'')]
                @ calls @ [StError (cross_mark @ '' Prediction failed: '' @ ''No space left on device'')],
              w2)"
    and left: "folium_raises disk_full_env = None \<longrightarrow>
              (\<forall>e' left. save_raises disk_full_env = Some (e', left) \<longrightarrow>
                 disaster_risk_map_html w2 = left)"
    by (elim exE conjE) (rule that, assumption+)
  from left ctor save have html: "disaster_risk_map_html w2 = Some (Regular [CHR 0xE2])"
    by simp
  from te have te': "try_except disk_full_env high_model example_form ?w1 =
        ([Predict (input_features example_form), StSuccess (predicted_risk_level ''High''),
          StHeader (world_map_sign @ '' Visualize Location on Risk Map'')]
           @ calls @ [StError (cross_mark @ '' Prediction failed: No space left on device'')],
         w2)"
    by simp
  have ex: "\<exists>calls w2.
      try_except disk_full_env high_model example_form ?w1 =
        ([Predict (input_features example_form), StSuccess (predicted_risk_level ''High''),
          StHeader (world_map_sign @ '' Visualize Location on Risk Map'')]
           @ calls @ [StError (cross_mark @ '' Prediction failed: No space left on device'')],
         w2) \<and>
      disaster_risk_map_html w2 = Some (Regular [CHR 0xE2])"
    by (rule exI [of _ calls], rule exI [of _ w2]) (intro conjI te' html)
  have direct: "try_except disk_full_env high_model example_form ?w1 =
      ([Predict (input_features example_form), StSuccess (predicted_risk_level ''High''),
        StHeader (world_map_sign @ '' Visualize Location on Risk Map''),
        Save (build_map example_form ''High''),
        StError (prediction_failed ''No space left on device'')],
       ?w1\<lparr>disaster_risk_map_html := Some (Regular [CHR 0xE2])\<rparr>)"
    by (simp add: try_except_def try_body_def high_model_first ctor save Let_def)
  have torn: "full_risk_map (?w1\<lparr>disaster_risk_map_html := Some (Regular [CHR 0xE2])\<rparr>) =
      ([StSubheader (round_pushpin @ '' View Full Risk Map'')], Some UnicodeDecodeError)"
    by (simp add: full_risk_map_def read_text_def)
  have run: "script disk_full_env example_form (fresh_world (Some (Inr high_model))) =
     ([Predict (input_features example_form),
       StSuccess (predicted_risk_level ''High''),
       StHeader (world_map_sign @ '' Visualize Location on Risk Map''),
       Save (build_map example_form ''High''),
       StError (cross_mark @ '' Prediction failed: No space left on device''),
       StSubheader (round_pushpin @ '' View Full Risk Map'')],
      Uncaught UnicodeDecodeError,
      ?w1\<lparr>disaster_risk_map_html := Some (Regular [CHR 0xE2])\<rparr>)"
    by (simp add: script_loaded [OF fresh_load submitted_example] direct torn
        prediction_failed_def run_outcome_def)
  show ?thesis
    by (intro conjI fresh_load submitted_example high_model_first raises ex run)
qed

section \<open>Rounding to binary64\<close>

lemma pow2_powi: "pow2 e = 2 powi e"
  by (simp add: pow2_def power_int_def inverse_eq_divide power_one_over)

lemma pow2_pos: "0 < pow2 e"
  by (simp add: pow2_powi)

lemma pow2_mono: "a \<le> b \<Longrightarrow> pow2 a \<le> pow2 b"
  by (simp add: pow2_powi power_int_increasing)

lemma pow2_strict_mono: "a < b \<Longrightarrow> pow2 a < pow2 b"
  by (simp add: pow2_powi power_int_strict_increasing)

lemma pow2_le_imp: "pow2 a \<le> pow2 b \<Longrightarrow> a \<le> b"
  using pow2_strict_mono [of b a] by (cases "a \<le> b") auto

lemma pow2_less_imp: "pow2 a < pow2 b \<Longrightarrow> a < b"
  using pow2_mono [of b a] by (cases "a < b") auto

lemma pow2_add: "pow2 (a + b) = pow2 a * pow2 b"
  by (simp add: pow2_powi power_int_add)

lemma pow2_diff: "pow2 (a - b) = pow2 a / pow2 b"
  by (simp add: pow2_powi power_int_diff)

lemma pow2_nat: "pow2 (int n) = 2 ^ n"
  by (simp add: pow2_powi)

lemma bit_length_pos: "0 < n \<Longrightarrow> 1 \<le> bit_length n"
proof -
  assume "0 < n"
  have "0 \<le> bit_length m" for m
    by (induction m rule: bit_length.induct) (subst bit_length.simps, simp)
  from this [of "n div 2"] \<open>0 < n\<close> show ?thesis
    by (subst bit_length.simps) simp
qed

lemma bit_length_bounds:
  "0 < n \<Longrightarrow> 2 ^ nat (bit_length n - 1) \<le> n \<and> n < 2 ^ nat (bit_length n)"
proof (induction n rule: bit_length.induct)
  case (1 n)
  show ?case
  proof (cases "n = 1")
    case True
    have "bit_length 0 = 0" by (subst bit_length.simps) simp
    then have "bit_length 1 = 1" by (subst bit_length.simps) simp
    with True show ?thesis by simp
  next
    case False
    with 1 have h: "0 < n div 2" by simp
    with 1 have ih: "2 ^ nat (bit_length (n div 2) - 1) \<le> n div 2"
      "n div 2 < 2 ^ nat (bit_length (n div 2))"
      by simp_all
    have bl: "bit_length n = 1 + bit_length (n div 2)"
      using 1(2) by (subst bit_length.simps) simp
    from bit_length_pos [OF h] have k: "nat (bit_length (n div 2)) = Suc (nat (bit_length (n div 2) - 1))"
      by simp
    have lo: "2 ^ nat (bit_length n - 1) \<le> n"
    proof -
      have "(2::int) ^ nat (bit_length (n div 2)) = 2 * 2 ^ nat (bit_length (n div 2) - 1)"
        by (subst k) simp
      also have "\<dots> \<le> 2 * (n div 2)" using ih(1) by simp
      also have "\<dots> \<le> n" by simp
      finally show ?thesis by (simp add: bl)
    qed
    have hi: "n < 2 ^ nat (bit_length n)"
    proof -
      from ih(2) have "n div 2 + 1 \<le> 2 ^ nat (bit_length (n div 2))" by simp
      then have "2 * (n div 2) + 2 \<le> 2 * 2 ^ nat (bit_length (n div 2))" by simp
      moreover have "n < 2 * (n div 2) + 2" by presburger
      moreover have "nat (bit_length n) = Suc (nat (bit_length (n div 2)))"
        using bit_length_pos [OF h] by (simp add: bl)
      ultimately show ?thesis by simp
    qed
    from lo hi show ?thesis by simp
  qed
qed

lemma binary_exponent_le:
  assumes "0 < a"
  shows "pow2 (binary_exponent a) \<le> a"
proof -
  obtain p q where pq: "quotient_of a = (p, q)"
    by (cases "quotient_of a") auto
  then have q: "0 < q" and a: "a = of_int p / of_int q"
    by (simp_all add: quotient_of_denom_pos quotient_of_div)
  from assms a q have p: "0 < p"
    by (simp add: zero_less_divide_iff)
  let ?e0 = "bit_length p - bit_length q"
  show ?thesis
  proof (cases "pow2 ?e0 \<le> a")
    case True
    then show ?thesis by (simp add: binary_exponent_def pq)
  next
    case False
    then have be: "binary_exponent a = ?e0 - 1"
      by (simp add: binary_exponent_def pq)
    from bit_length_bounds [OF p] have "2 ^ nat (bit_length p - 1) \<le> p" by simp
    then have "(of_int (2 ^ nat (bit_length p - 1)) :: rat) \<le> of_int p"
      by (simp only: of_int_le_iff)
    then have lo: "pow2 (bit_length p - 1) \<le> of_int p"
      using bit_length_pos [OF p] by (simp add: pow2_def)
    from bit_length_bounds [OF q] have "q \<le> 2 ^ nat (bit_length q)" by simp
    then have "(of_int q :: rat) \<le> of_int (2 ^ nat (bit_length q))"
      by (simp only: of_int_le_iff)
    then have hi: "of_int q \<le> pow2 (bit_length q)"
      using bit_length_pos [OF q] by (simp add: pow2_def)
    have "pow2 (?e0 - 1) = pow2 (bit_length p - 1) / pow2 (bit_length q)"
      by (simp add: pow2_diff [symmetric] algebra_simps)
    also have "\<dots> \<le> of_int p / of_int q"
      using lo hi q pow2_pos [of "bit_length p - 1"]
      by (intro frac_le) simp_all
    finally have "pow2 (?e0 - 1) \<le> a" unfolding a .
    then show ?thesis by (simp only: be)
  qed
qed

lemma round_half_even_error: "\<bar>of_int (round_half_even x) - x\<bar> \<le> 1 / 2"
proof -
  have "of_int \<lfloor>x\<rfloor> \<le> x" "x < of_int \<lfloor>x\<rfloor> + 1"
    by linarith+
  then show ?thesis
    by (auto simp: round_half_even_def Let_def)
qed

lemma round_half_even_int: "round_half_even (of_int n) = n"
  by (simp add: round_half_even_def)

lemma to_double_error:
  assumes "\<bar>x\<bar> \<le> pow2 k" and "- 1022 \<le> k"
  shows "\<bar>to_double x - x\<bar> \<le> pow2 (k - 53)"
proof (cases "x = 0")
  case True
  then show ?thesis using pow2_pos [of "k - 53"] by (simp add: to_double_def)
next
  case False
  define e where "e = max (binary_exponent \<bar>x\<bar>) (- 1022)"
  define q where "q = pow2 (e - 52)"
  have td: "to_double x = of_int (round_half_even (x / q)) * q"
    using False by (simp add: to_double_def Let_def e_def q_def)
  have qpos: "0 < q" by (simp add: q_def pow2_pos)
  from False have "pow2 (binary_exponent \<bar>x\<bar>) \<le> \<bar>x\<bar>"
    by (intro binary_exponent_le) simp
  with assms(1) have "pow2 (binary_exponent \<bar>x\<bar>) \<le> pow2 k" by simp
  then have "binary_exponent \<bar>x\<bar> \<le> k"
    by (rule pow2_le_imp)
  with assms(2) have ek: "e \<le> k" by (simp add: e_def)
  have "to_double x - x = (of_int (round_half_even (x / q)) - x / q) * q"
    using qpos by (simp add: td algebra_simps)
  then have "\<bar>to_double x - x\<bar> = \<bar>of_int (round_half_even (x / q)) - x / q\<bar> * q"
    using qpos by (simp add: abs_mult)
  also have "\<dots> \<le> (1 / 2) * q"
    using round_half_even_error [of "x / q"] qpos by (intro mult_right_mono) simp_all
  also have "\<dots> = pow2 (e - 53)"
  proof -
    have "pow2 (e - 52) = pow2 (e - 53) * pow2 1"
      by (simp add: pow2_add [symmetric])
    then show ?thesis by (simp add: q_def pow2_def)
  qed
  also have "\<dots> \<le> pow2 (k - 53)"
    using ek by (intro pow2_mono) simp
  finally show ?thesis .
qed

lemma to_double_exact:
  assumes "x * 2 ^ j = of_int n" and "\<bar>x\<bar> < pow2 (53 - int j)" and "int j \<le> 1074"
  shows "to_double x = x"
proof (cases "x = 0")
  case True
  then show ?thesis by (simp add: to_double_def)
next
  case False
  define e where "e = max (binary_exponent \<bar>x\<bar>) (- 1022)"
  define q where "q = pow2 (e - 52)"
  have td: "to_double x = of_int (round_half_even (x / q)) * q"
    using False by (simp add: to_double_def Let_def e_def q_def)
  have qpos: "0 < q" by (simp add: q_def pow2_pos)
  from False have "pow2 (binary_exponent \<bar>x\<bar>) \<le> \<bar>x\<bar>"
    by (intro binary_exponent_le) simp
  with assms(2) have "pow2 (binary_exponent \<bar>x\<bar>) < pow2 (53 - int j)" by simp
  then have "binary_exponent \<bar>x\<bar> < 53 - int j" by (rule pow2_less_imp)
  with assms(3) have ej: "e \<le> 52 - int j" by (simp add: e_def)
  define d where "d = nat (52 - int j - e)"
  have sum0: "int j + int d + (e - 52) = 0"
    using ej by (simp add: d_def)
  have "pow2 (int j) * pow2 (int d) * pow2 (e - 52) = pow2 (int j + int d + (e - 52))"
    by (simp only: pow2_add)
  also have "\<dots> = 1"
    by (simp only: sum0) (simp add: pow2_def)
  finally have "pow2 (int j) * pow2 (int d) * pow2 (e - 52) = 1" .
  then have "1 / q = 2 ^ j * 2 ^ d"
    using qpos by (simp add: q_def pow2_nat field_simps)
  then have "x / q = (x * 2 ^ j) * 2 ^ d"
    using divide_inverse [of x q] by (simp add: inverse_eq_divide mult.assoc)
  also have "\<dots> = of_int (n * 2 ^ d)"
    by (simp add: assms(1))
  finally have "x / q = of_int (n * 2 ^ d)" .
  then have "of_int (round_half_even (x / q)) = x / q"
    by (simp only: round_half_even_int)
  then show ?thesis using qpos by (simp add: td)
qed

section \<open>The engineered features\<close>

lemma double_half: "to_double (1 / 2) = 1 / 2"
  by code_simp

lemma double_three_tenths: "to_double (3 / 10) = 5404319552844595 / 18014398509481984"
  by code_simp

lemma double_two_tenths: "to_double (1 / 5) = 3602879701896397 / 18014398509481984"
  by code_simp

lemma float_of_int_exact:
  assumes "\<bar>i\<bar> \<le> 20000"
  shows "float_of_int i = of_int i"
proof -
  have "\<bar>of_int i :: rat\<bar> \<le> 20000"
    using assms by (simp flip: of_int_abs)
  also have "(20000 :: rat) < pow2 (53 - int 0)"
    by (simp add: pow2_def)
  finally have small: "\<bar>of_int i :: rat\<bar> < pow2 (53 - int 0)" .
  have "(of_int i :: rat) * 2 ^ 0 = of_int i" by simp
  from to_double_exact [OF this small] show ?thesis
    by (simp add: float_of_int_def)
qed

lemma half_exact:
  assumes "\<bar>i\<bar> \<le> 20000"
  shows "fmul (of_int i) (1 / 2) = of_int i / 2"
proof -
  have "\<bar>of_int i / 2 :: rat\<bar> \<le> 20000"
    using assms by (simp flip: of_int_abs)
  also have "(20000 :: rat) < pow2 (53 - int 1)"
    by (simp add: pow2_def)
  finally have small: "\<bar>of_int i / 2 :: rat\<bar> < pow2 (53 - int 1)" .
  have "(of_int i / 2 :: rat) * 2 ^ 1 = of_int i" by simp
  from to_double_exact [OF this small] show ?thesis
    by (simp add: fmul_def)
qed

lemma pow2_values:
  "pow2 13 = 8192" "pow2 (- 40) = 1 / 1099511627776" "pow2 (- 2) = 1 / 4"
  "pow2 (- 55) = 1 / 36028797018963968"
  by (simp_all add: pow2_def)

lemma risk_index_error:
  assumes "in_ranges f"
  shows "\<bar>risk_index f -
           (of_int (disaster_score f) * (5 / 10) + of_int (pop_density f) * (3 / 10)
              + urban_level f * (2 / 10))\<bar> \<le> 1 / 2 ^ 38"
proof -
  define ds where "ds = (of_int (disaster_score f) :: rat)"
  define pd where "pd = (of_int (pop_density f) :: rat)"
  define ul where "ul = urban_level f"
  define c3 where "c3 = (5404319552844595 / 18014398509481984 :: rat)"
  define c2 where "c2 = (3602879701896397 / 18014398509481984 :: rat)"
  have r: "0 \<le> ds" "ds \<le> 10" "0 \<le> pd" "pd \<le> 20000" "0 \<le> ul" "ul \<le> 1"
    using assms by (simp_all add: in_ranges_def ds_def pd_def ul_def)
  have ids: "\<bar>disaster_score f\<bar> \<le> 20000" and ipd: "\<bar>pop_density f\<bar> \<le> 20000"
    using assms by (simp_all add: in_ranges_def)
  define t1 where "t1 = fmul (float_of_int (disaster_score f)) (to_double (5 / 10))"
  define t2 where "t2 = fmul (float_of_int (pop_density f)) (to_double (3 / 10))"
  define t3 where "t3 = fmul (urban_level f) (to_double (2 / 10))"
  define s1 where "s1 = fadd t1 t2"
  have ri: "risk_index f = fadd s1 t3"
    by (simp add: risk_index_def s1_def t1_def t2_def t3_def)
  have t1: "t1 = ds / 2"
    by (simp add: t1_def float_of_int_exact [OF ids] double_half half_exact [OF ids] ds_def)
  have t2: "t2 = to_double (pd * c3)"
    by (simp add: t2_def float_of_int_exact [OF ipd] double_three_tenths fmul_def pd_def c3_def)
  have t3: "t3 = to_double (ul * c2)"
    by (simp add: t3_def double_two_tenths fmul_def ul_def c2_def)
  have p3: "0 \<le> pd * c3" "pd * c3 \<le> 6000"
    using r unfolding c3_def by linarith+
  have p2: "0 \<le> ul * c2" "ul * c2 \<le> 1 / 4"
    using r unfolding c2_def by linarith+
  have d3: "\<bar>pd * c3 - pd * (3 / 10)\<bar> \<le> 1 / 4398046511104"
    using r unfolding c3_def by linarith
  have d2: "\<bar>ul * c2 - ul * (2 / 10)\<bar> \<le> 1 / 36028797018963968"
    using r unfolding c2_def by linarith
  have "\<bar>pd * c3\<bar> \<le> pow2 13"
    using p3 unfolding pow2_values by linarith
  from to_double_error [OF this] have "\<bar>t2 - pd * c3\<bar> \<le> pow2 (- 40)"
    by (simp add: t2)
  then have e2: "\<bar>t2 - pd * c3\<bar> \<le> 1 / 1099511627776"
    unfolding pow2_values .
  have "\<bar>ul * c2\<bar> \<le> pow2 (- 2)"
    using p2 unfolding pow2_values by linarith
  from to_double_error [OF this] have "\<bar>t3 - ul * c2\<bar> \<le> pow2 (- 55)"
    by (simp add: t3)
  then have e3: "\<bar>t3 - ul * c2\<bar> \<le> 1 / 36028797018963968"
    unfolding pow2_values .
  have "\<bar>t1 + t2\<bar> \<le> pow2 13"
    using r p3 e2 unfolding pow2_values t1 by linarith
  from to_double_error [OF this] have "\<bar>s1 - (t1 + t2)\<bar> \<le> pow2 (- 40)"
    by (simp add: s1_def fadd_def)
  then have e4: "\<bar>s1 - (t1 + t2)\<bar> \<le> 1 / 1099511627776"
    unfolding pow2_values .
  have "\<bar>s1 + t3\<bar> \<le> pow2 13"
    using r p3 p2 e2 e3 e4 unfolding pow2_values t1 by linarith
  from to_double_error [OF this] have "\<bar>fadd s1 t3 - (s1 + t3)\<bar> \<le> pow2 (- 40)"
    by (simp add: fadd_def)
  then have e5: "\<bar>fadd s1 t3 - (s1 + t3)\<bar> \<le> 1 / 1099511627776"
    unfolding pow2_values .
  have "\<bar>fadd s1 t3 - (ds * (5 / 10) + pd * (3 / 10) + ul * (2 / 10))\<bar> \<le> 1 / 274877906944"
    using d3 d2 e2 e3 e4 e5 unfolding t1 by linarith
  then show ?thesis
    by (simp add: ri ds_def pd_def ul_def)
qed

lemma example_form_in_ranges: "in_ranges example_form"
  unfolding in_ranges_def example_form_def by code_simp

lemma example_risk_index: "risk_index example_form = to_double (15026 / 10)"
  unfolding example_form_def by code_simp

lemma example_damage_scale: "damage_scale example_form = 200"
  by (simp add: damage_scale_def example_form_def)

text \<open>
  C1. For every form within the ranges, \<open>risk_index\<close> is the expression
  \<open>disaster_score * 0.5 + pop_density * 0.3 + urban_level * 0.2\<close> evaluated left to right in
  Python's float arithmetic and nothing else: no rounding step and no clamping follows, and
  the value lies within \<open>2 ^ - 38\<close> of the same combination over the rationals, the
  distance being what binary64 arithmetic itself loses. \<open>damage_scale\<close> is the integer
  \<open>houses_affected + deaths * 10\<close>. For the defaults of the form (5, 5000, 0.5, 100, 10)
  the risk index is the float that Python writes \<open>1502.6\<close> and the damage scale is 200.
\<close>

theorem derive_formula:
  assumes "in_ranges f"
  shows "risk_index f =
           fadd (fadd (fmul (float_of_int (disaster_score f)) (to_double (5 / 10)))
                      (fmul (float_of_int (pop_density f)) (to_double (3 / 10))))
                (fmul (urban_level f) (to_double (2 / 10))) \<and>
         \<bar>risk_index f -
            (of_int (disaster_score f) * (5 / 10) + of_int (pop_density f) * (3 / 10)
               + urban_level f * (2 / 10))\<bar> \<le> 1 / 2 ^ 38 \<and>
         damage_scale f = houses_affected f + deaths f * 10 \<and>
         risk_index example_form = to_double (15026 / 10) \<and>
         damage_scale example_form = 200"
proof (intro conjI)
  show "risk_index f =
           fadd (fadd (fmul (float_of_int (disaster_score f)) (to_double (5 / 10)))
                      (fmul (float_of_int (pop_density f)) (to_double (3 / 10))))
                (fmul (urban_level f) (to_double (2 / 10)))"
    by (simp only: risk_index_def)
  show "\<bar>risk_index f -
            (of_int (disaster_score f) * (5 / 10) + of_int (pop_density f) * (3 / 10)
               + urban_level f * (2 / 10))\<bar> \<le> 1 / 2 ^ 38"
    by (rule risk_index_error [OF assms])
  show "damage_scale f = houses_affected f + deaths f * 10"
    by (simp only: damage_scale_def)
  show "risk_index example_form = to_double (15026 / 10)"
    by (rule example_risk_index)
  show "damage_scale example_form = 200"
    by (rule example_damage_scale)
qed

theorem derive_formula_witness:
  "in_ranges example_form \<and>
   disaster_score example_form = 5 \<and> pop_density example_form = 5000 \<and>
   urban_level example_form = 1 / 2 \<and>
   houses_affected example_form = 100 \<and> deaths example_form = 10 \<and>
   risk_index example_form = to_double (15026 / 10) \<and>
   \<bar>risk_index example_form - 15026 / 10\<bar> \<le> 1 / 2 ^ 38 \<and>
   damage_scale example_form = 200"
proof -
  have fields: "disaster_score example_form = 5" "pop_density example_form = 5000"
    "urban_level example_form = 1 / 2"
    "houses_affected example_form = 100" "deaths example_form = 10"
    by (simp_all add: example_form_def double_half)
  from derive_formula [OF example_form_in_ranges]
  have "\<bar>risk_index example_form -
            (of_int (disaster_score example_form) * (5 / 10)
               + of_int (pop_density example_form) * (3 / 10)
               + urban_level example_form * (2 / 10))\<bar> \<le> 1 / 2 ^ 38"
    and "risk_index example_form = to_double (15026 / 10)"
    and "damage_scale example_form = 200"
    by blast+
  then show ?thesis
    using example_form_in_ranges fields by simp
qed

end
